theory Spec2Isabelle
  imports Complex_Main
begin

section \<open>Scene state store (src/src/App.jsx)\<close>

text \<open>
  JavaScript numbers are modelled as \<^typ>\<open>real\<close>: arithmetic is exact, and the only
  falsy number is \<open>0\<close> (there is no NaN). Strings are \<^typ>\<open>string\<close>; the only falsy
  string is the empty one. \<open>undefined\<close> and \<open>null\<close> are \<open>None\<close>.
\<close>

subsection \<open>Data\<close>

text \<open>A library entry is \<^verbatim>\<open>{ name, url }\<close> (built in \<open>handleFileChange\<close>).\<close>

record libraryItem =
  name :: string
  url :: string

text \<open>
  A scene item is \<^verbatim>\<open>{ ...libraryItem, id, position, rotation, scale }\<close>
  (built in \<open>handleAddItemToScene\<close>), hence an extension of the library entry.
  The field \<open>id\<close> is called \<open>item_id\<close>, because \<open>id\<close> is HOL's identity function.
\<close>

record sceneItem = libraryItem +
  item_id :: string
  position :: "real list"
  rotation :: "real list"
  scale :: "real list"

text \<open>The bounds object returned by \<open>calculateRoomBounds\<close>.\<close>

record bounds =
  minX :: real
  maxX :: real
  minY :: real
  maxY :: real
  minZ :: real
  maxZ :: real
  centerX :: real
  centerY :: real
  centerZ :: real

text \<open>The data fields of the zustand store, in the order of the source.\<close>

record store =
  items :: "sceneItem list"
  library :: "libraryItem list"
  environment :: string
  roomLightingPreset :: string
  furnitureLightingPreset :: string
  roomBounds :: "bounds option"
  roomLightIntensity :: real
  furnitureLightIntensity :: real
  roomMaterialBrightness :: real
  selectedItem :: "string option"
  transformMode :: string

text \<open>
  The object handed to \<open>loadScene\<close>: the \<open>sceneData\<close> of \<open>handleSave\<close>, or whatever
  \<open>JSON.parse\<close> made of a file. Every field may be missing (\<open>None\<close>).
\<close>

record sceneData =
  doc_library :: "libraryItem list option"
  doc_items :: "sceneItem list option"
  doc_environment :: "string option"
  doc_roomLightingPreset :: "string option"
  doc_furnitureLightingPreset :: "string option"
  doc_roomLightIntensity :: "real option"
  doc_furnitureLightIntensity :: "real option"
  doc_roomMaterialBrightness :: "real option"

text \<open>The file picked in the hidden file input; \<open>dataURL\<close> is what the FileReader yields.\<close>

record glbFile =
  file_name :: string
  dataURL :: string

subsection \<open>The initial store and its setters\<close>

definition initialStore :: store where
  "initialStore =
     \<lparr> items = [], library = [], environment = ''studio'',
       roomLightingPreset = ''warm-evening'', furnitureLightingPreset = ''default'',
       roomBounds = None, roomLightIntensity = 1, furnitureLightIntensity = 1,
       roomMaterialBrightness = 1, selectedItem = None, transformMode = ''translate'' \<rparr>"

definition setEnvironment :: "string \<Rightarrow> store \<Rightarrow> store" where
  "setEnvironment env s = s\<lparr>environment := env\<rparr>"

definition setRoomLightingPreset :: "string \<Rightarrow> store \<Rightarrow> store" where
  "setRoomLightingPreset preset s = s\<lparr>roomLightingPreset := preset\<rparr>"

definition setFurnitureLightingPreset :: "string \<Rightarrow> store \<Rightarrow> store" where
  "setFurnitureLightingPreset preset s = s\<lparr>furnitureLightingPreset := preset\<rparr>"

definition setRoomBounds :: "bounds option \<Rightarrow> store \<Rightarrow> store" where
  "setRoomBounds bnds s = s\<lparr>roomBounds := bnds\<rparr>"

definition setRoomLightIntensity :: "real \<Rightarrow> store \<Rightarrow> store" where
  "setRoomLightIntensity v s = s\<lparr>roomLightIntensity := v\<rparr>"

definition setFurnitureLightIntensity :: "real \<Rightarrow> store \<Rightarrow> store" where
  "setFurnitureLightIntensity v s = s\<lparr>furnitureLightIntensity := v\<rparr>"

definition setRoomMaterialBrightness :: "real \<Rightarrow> store \<Rightarrow> store" where
  "setRoomMaterialBrightness v s = s\<lparr>roomMaterialBrightness := v\<rparr>"

definition setSelectedItem :: "string option \<Rightarrow> store \<Rightarrow> store" where
  "setSelectedItem i s = s\<lparr>selectedItem := i\<rparr>"

definition setTransformMode :: "string \<Rightarrow> store \<Rightarrow> store" where
  "setTransformMode mode s = s\<lparr>transformMode := mode\<rparr>"

subsection \<open>Library and item operations\<close>

definition addLibraryItem :: "libraryItem \<Rightarrow> store \<Rightarrow> store" where
  "addLibraryItem newItem s = s\<lparr>library := library s @ [newItem]\<rparr>"

definition removeLibraryItem :: "string \<Rightarrow> store \<Rightarrow> store" where
  "removeLibraryItem u s =
     s\<lparr>library := filter (\<lambda>item. url item \<noteq> u) (library s),
       items := filter (\<lambda>item. url item \<noteq> u) (items s)\<rparr>"

definition addItem :: "sceneItem \<Rightarrow> store \<Rightarrow> store" where
  "addItem item s = s\<lparr>items := items s @ [item]\<rparr>"

text \<open>
  \<open>updateItem\<close> spreads \<open>newProps\<close> over the item with the given id; its only caller,
  the drag-end handler, passes \<open>position\<close>, \<open>rotation\<close> and \<open>scale\<close>.
\<close>

definition updateItem :: "string \<Rightarrow> real list \<Rightarrow> real list \<Rightarrow> real list \<Rightarrow> store \<Rightarrow> store" where
  "updateItem i pos rot scl s =
     s\<lparr>items := map (\<lambda>item. if item_id item = i
                              then item\<lparr>position := pos, rotation := rot, scale := scl\<rparr>
                              else item) (items s)\<rparr>"

definition deleteItem :: "string \<Rightarrow> store \<Rightarrow> store" where
  "deleteItem i s =
     s\<lparr>items := filter (\<lambda>item. item_id item \<noteq> i) (items s),
       selectedItem := None\<rparr>"

text \<open>
  \<open>handleAddItemToScene\<close> of the library panel; the fresh identifier of \<open>uuidv4()\<close>
  is a parameter.
\<close>

definition handleAddItemToScene :: "string \<Rightarrow> libraryItem \<Rightarrow> store \<Rightarrow> store" where
  "handleAddItemToScene uuid libItem s =
     addItem \<lparr> name = name libItem, url = url libItem, item_id = uuid,
               position = [0, 1, 0], rotation = [0, 0, 0], scale = [1, 1, 1] \<rparr> s"

subsection \<open>Save and load\<close>

text \<open>
  The operator \<open>||\<close> of JavaScript yields its right operand when the left one is falsy.
  An array is always truthy; a string is falsy when empty; a number is falsy when zero.
\<close>

definition orArray :: "'a list option \<Rightarrow> 'a list \<Rightarrow> 'a list" where
  "orArray v d = (case v of None \<Rightarrow> d | Some xs \<Rightarrow> xs)"

definition orString :: "string option \<Rightarrow> string \<Rightarrow> string" where
  "orString v d = (case v of None \<Rightarrow> d | Some x \<Rightarrow> if x = [] then d else x)"

definition orNumber :: "real option \<Rightarrow> real \<Rightarrow> real" where
  "orNumber v d = (case v of None \<Rightarrow> d | Some x \<Rightarrow> if x = 0 then d else x)"

definition loadScene :: "sceneData \<Rightarrow> store \<Rightarrow> store" where
  "loadScene d s =
     s\<lparr>items := orArray (doc_items d) [],
       library := orArray (doc_library d) [],
       environment := orString (doc_environment d) ''studio'',
       roomLightingPreset := orString (doc_roomLightingPreset d) ''warm-evening'',
       furnitureLightingPreset := orString (doc_furnitureLightingPreset d) ''default'',
       roomLightIntensity := orNumber (doc_roomLightIntensity d) 1.0,
       furnitureLightIntensity := orNumber (doc_furnitureLightIntensity d) 1.0,
       roomMaterialBrightness := orNumber (doc_roomMaterialBrightness d) 1.0,
       selectedItem := None\<rparr>"

text \<open>The \<open>sceneData\<close> object that \<open>handleSave\<close> builds from the store.\<close>

definition handleSave :: "store \<Rightarrow> sceneData" where
  "handleSave s =
     \<lparr> doc_library = Some (library s),
       doc_items = Some (items s),
       doc_environment = Some (environment s),
       doc_roomLightingPreset = Some (roomLightingPreset s),
       doc_furnitureLightingPreset = Some (furnitureLightingPreset s),
       doc_roomLightIntensity = Some (roomLightIntensity s),
       doc_furnitureLightIntensity = Some (furnitureLightIntensity s),
       doc_roomMaterialBrightness = Some (roomMaterialBrightness s) \<rparr>"

text \<open>The empty document \<^verbatim>\<open>{}\<close>.\<close>

definition emptyDocument :: sceneData where
  "emptyDocument =
     \<lparr> doc_library = None, doc_items = None, doc_environment = None,
       doc_roomLightingPreset = None, doc_furnitureLightingPreset = None,
       doc_roomLightIntensity = None, doc_furnitureLightIntensity = None,
       doc_roomMaterialBrightness = None \<rparr>"

subsection \<open>Uploading a model\<close>

definition endsWith :: "string \<Rightarrow> string \<Rightarrow> bool" where
  "endsWith s t \<longleftrightarrow> length t \<le> length s \<and> drop (length s - length t) s = t"

text \<open>
  \<open>handleFileChange\<close>: the result is the alert shown, if any, and the store after the
  FileReader has called back. The reader's callback is modelled as running at once.
\<close>

definition handleFileChange :: "glbFile option \<Rightarrow> store \<Rightarrow> string option \<times> store" where
  "handleFileChange f s =
     (case f of
        None \<Rightarrow> (Some ''Please select a .glb file.'', s)
      | Some fl \<Rightarrow>
          if endsWith (file_name fl) ''.glb'' then
            if list_ex (\<lambda>item. name item = file_name fl) (library s)
            then (Some (file_name fl @ '' is already in the library.''), s)
            else (None, addLibraryItem \<lparr> name = file_name fl, url = dataURL fl \<rparr> s)
          else (Some ''Please select a .glb file.'', s))"

subsection \<open>What the user interface can do to the store\<close>

text \<open>
  The handlers that the components wire to the store: the upload, the two buttons of a
  library row, the delete button (which passes the selected id), the gizmo's drag end,
  the clicks that select, the mode buttons, the selectors and sliders, the room-bounds
  effect, and the loading of a scene file.
\<close>

datatype action =
    Upload "glbFile option"
  | RemoveFromLibrary string
  | AddToScene string libraryItem
  | DeleteSelected
  | DragEnd string "real list" "real list" "real list"
  | Select "string option"
  | SetTransformMode string
  | SetEnvironment string
  | SetRoomLightingPreset string
  | SetFurnitureLightingPreset string
  | SetRoomLightIntensity real
  | SetFurnitureLightIntensity real
  | SetRoomMaterialBrightness real
  | SetRoomBounds "bounds option"
  | LoadScene sceneData

fun perform :: "store \<Rightarrow> action \<Rightarrow> store" where
  "perform s (Upload f) = snd (handleFileChange f s)"
| "perform s (RemoveFromLibrary u) = removeLibraryItem u s"
| "perform s (AddToScene uuid libItem) = handleAddItemToScene uuid libItem s"
| "perform s DeleteSelected =
     (case selectedItem s of
        None \<Rightarrow> s
      | Some i \<Rightarrow> if list_ex (\<lambda>item. item_id item = i) (items s) then deleteItem i s else s)"
| "perform s (DragEnd i pos rot scl) = updateItem i pos rot scl s"
| "perform s (Select i) = setSelectedItem i s"
| "perform s (SetTransformMode mode) = setTransformMode mode s"
| "perform s (SetEnvironment env) = setEnvironment env s"
| "perform s (SetRoomLightingPreset preset) = setRoomLightingPreset preset s"
| "perform s (SetFurnitureLightingPreset preset) = setFurnitureLightingPreset preset s"
| "perform s (SetRoomLightIntensity v) = setRoomLightIntensity v s"
| "perform s (SetFurnitureLightIntensity v) = setFurnitureLightIntensity v s"
| "perform s (SetRoomMaterialBrightness v) = setRoomMaterialBrightness v s"
| "perform s (SetRoomBounds bnds) = setRoomBounds bnds s"
| "perform s (LoadScene d) = loadScene d s"

text \<open>
  An action that does not bring a repeated name into the library by itself: any action
  but the loading of a scene file whose library lists some name twice.
\<close>

definition loadsDistinct :: "action \<Rightarrow> bool" where
  "loadsDistinct a =
     (case a of
        LoadScene d \<Rightarrow> distinct (map name (orArray (doc_library d) []))
      | _ \<Rightarrow> True)"

text \<open>The store after a sequence of user actions on the initial store.\<close>

definition run :: "action list \<Rightarrow> store" where
  "run acts = foldl perform initialStore acts"

section \<open>Room material brightness (the effect of \<open>FurnitureModel\<close>, src/src/App.jsx)\<close>

subsection \<open>Materials and mesh nodes\<close>

text \<open>A colour object of the renderer, with its three channels.\<close>

record rgb =
  r :: real
  g :: real
  b :: real

text \<open>
  The three keys the effect writes into \<open>material.userData\<close>. The effect writes them
  together and nothing else in the repository touches them, so \<open>userData\<close> of a
  material is \<open>None\<close> (no key yet, \<open>originalColor\<close> undefined) or holds all three.
  \<open>originalEmissive\<close> is \<open>None\<close> for the stored \<open>null\<close>.
\<close>

record baseline =
  originalColor :: rgb
  originalEmissive :: "rgb option"
  originalEmissiveIntensity :: real

text \<open>
  A material. \<open>emissive\<close> and \<open>emissiveIntensity\<close> are \<open>None\<close> on a material class that
  has no such property (\<open>undefined\<close>).
\<close>

record material =
  color :: rgb
  emissive :: "rgb option"
  emissiveIntensity :: "real option"
  userData :: "baseline option"
  needsUpdate :: bool

text \<open>
  A node visited by \<open>scene.traverse\<close>. Materials are objects shared by reference: a node
  holds the address of its material, and the materials live in a store of their own.
\<close>

record node =
  isMesh :: bool
  castShadow :: bool
  receiveShadow :: bool
  material :: "nat option"

type_synonym materials = "nat \<Rightarrow> material"

subsection \<open>The adjustment\<close>

text \<open>
  The statements after the capture of the baseline: the colour channels, the emissive
  colour and intensity, and \<open>needsUpdate\<close>. \<open>bl\<close> is \<open>material.userData\<close> at that point.
\<close>

definition applyBrightness :: "real \<Rightarrow> baseline \<Rightarrow> material \<Rightarrow> material" where
  "applyBrightness brightness bl m =
     (let oc = originalColor bl;
          m1 = m\<lparr>color := \<lparr> r = min (r oc * brightness) 1,
                              g = min (g oc * brightness) 1,
                              b = min (b oc * brightness) 1 \<rparr>\<rparr>;
          m2 = (case emissive m1 of
                  None \<Rightarrow> m1
                | Some e \<Rightarrow>
                    (let m1' = (case originalEmissive bl of
                                  None \<Rightarrow> m1
                                | Some oe \<Rightarrow> m1\<lparr>emissive := Some oe\<rparr>);
                         glowIntensity = (brightness - 1) * 0.5
                     in m1'\<lparr>emissiveIntensity :=
                              Some (originalEmissiveIntensity bl + glowIntensity)\<rparr>))
      in m2\<lparr>needsUpdate := True\<rparr>)"

text \<open>
  The body of \<^verbatim>\<open>if (child.material) { ... }\<close>: capture the baseline unless
  \<open>userData.originalColor\<close> is there already, then apply the brightness.
\<close>

definition adjustRoomMaterial :: "real \<Rightarrow> material \<Rightarrow> material" where
  "adjustRoomMaterial brightness m =
     (case userData m of
        None \<Rightarrow>
          (let bl = \<lparr> originalColor = color m,
                      originalEmissive = emissive m,
                      originalEmissiveIntensity =
                        (case emissiveIntensity m of None \<Rightarrow> 0 | Some v \<Rightarrow> v) \<rparr>
           in applyBrightness brightness bl (m\<lparr>userData := Some bl\<rparr>))
      | Some bl \<Rightarrow> applyBrightness brightness bl m)"

text \<open>The callback of \<open>scene.traverse\<close> on one node.\<close>

definition visitChild :: "bool \<Rightarrow> real \<Rightarrow> node \<Rightarrow> materials \<Rightarrow> node \<times> materials" where
  "visitChild isRoom brightness child h =
     (if isMesh child then
        if isRoom then
          (child\<lparr>castShadow := False, receiveShadow := True\<rparr>,
           case material child of
             None \<Rightarrow> h
           | Some a \<Rightarrow> h(a := adjustRoomMaterial brightness (h a)))
        else (child\<lparr>castShadow := True, receiveShadow := True\<rparr>, h)
      else (child, h))"

text \<open>\<open>scene.traverse\<close> over the nodes of the scene, in visiting order.\<close>

fun traverse :: "bool \<Rightarrow> real \<Rightarrow> node list \<Rightarrow> materials \<Rightarrow> node list \<times> materials" where
  "traverse isRoom k [] h = ([], h)"
| "traverse isRoom k (child # rest) h =
     (case visitChild isRoom k child h of
        (child', h') \<Rightarrow>
          (case traverse isRoom k rest h' of
             (rest', h'') \<Rightarrow> (child' # rest', h'')))"

text \<open>A sequence of brightness changes on one material, oldest first.\<close>

definition adjustments :: "real list \<Rightarrow> material \<Rightarrow> material" where
  "adjustments ks m = foldl (\<lambda>m' k. adjustRoomMaterial k m') m ks"

text \<open>Whether some mesh node of the scene carries the material at address \<open>a\<close>.\<close>

definition usesMaterial :: "node list \<Rightarrow> nat \<Rightarrow> bool" where
  "usesMaterial cs a = list_ex (\<lambda>c. isMesh c \<and> material c = Some a) cs"

section \<open>Lighting presets (src/src/lightingSystem.jsx)\<close>

subsection \<open>Light descriptors\<close>

text \<open>
  The fields \<open>color\<close>, \<open>intensity\<close>, \<open>position\<close> and \<open>castShadow\<close> occur in several
  of the source's objects; each record prefixes them (\<open>amb_\<close>, \<open>hemi_\<close>, \<open>pl_\<close>, \<open>dir_\<close>).
  A position is the three-element array of the source, as a triple.
\<close>

record ambientLight =
  amb_color :: string
  amb_intensity :: real

record hemisphereLight =
  skyColor :: string
  groundColor :: string
  hemi_intensity :: real
  hemi_position :: "real \<times> real \<times> real"

record pointLight =
  pl_position :: "real \<times> real \<times> real"
  pl_color :: string
  pl_intensity :: real
  distance :: real
  decay :: real
  pl_castShadow :: bool

record roomRig =
  ambientLight :: ambientLight
  hemisphereLight :: hemisphereLight
  pointLights :: "pointLight list"

record directionalLight =
  dir_color :: string
  dir_position :: "real \<times> real \<times> real"
  dir_intensity :: real
  dir_castShadow :: bool
  shadowMapSize :: "nat \<times> nat"

record furnitureRig =
  furn_ambientLight :: ambientLight
  directionalLight :: directionalLight

subsection \<open>Property lookup on an object literal\<close>

text \<open>
  Both resolvers keep their table in an object literal \<open>configs\<close> and read
  \<open>configs[preset]\<close>. An object literal inherits from \<open>Object.prototype\<close>, so the read
  finds an own property of the literal, or else a property of \<open>Object.prototype\<close>
  under that name (a function, or the prototype object itself for \<open>__proto__\<close>: truthy,
  and not a rig), or else \<open>undefined\<close>.
\<close>

datatype 'a property = Own 'a | Inherited string | Undefined

definition objectPrototype :: "string list" where
  "objectPrototype =
     [''constructor'', ''__defineGetter__'', ''__defineSetter__'', ''hasOwnProperty'',
      ''__lookupGetter__'', ''__lookupSetter__'', ''isPrototypeOf'',
      ''propertyIsEnumerable'', ''toString'', ''valueOf'', ''__proto__'',
      ''toLocaleString'']"

definition getProperty :: "(string \<times> 'a) list \<Rightarrow> string \<Rightarrow> 'a property" where
  "getProperty obj key =
     (case map_of obj key of
        Some v \<Rightarrow> Own v
      | None \<Rightarrow> if key \<in> set objectPrototype then Inherited key else Undefined)"

text \<open>
  What a resolver returns: \<open>null\<close>, a rig of its table, or the member of
  \<open>Object.prototype\<close> that the lookup found.
\<close>

datatype 'a config = Null | Config 'a | PrototypeMember string

subsection \<open>The room resolver\<close>

text \<open>The object literal \<open>configs\<close> of \<open>getRoomLightingConfig\<close>; \<open>off\<close> maps to \<open>null\<close>.\<close>

definition roomConfigs :: "bounds \<Rightarrow> (string \<times> roomRig option) list" where
  "roomConfigs rb =
     (let ceilingY = maxY rb * 0.9;
          cornerMargin = 0.8;
          corner1X = centerX rb + (maxX rb - centerX rb) * cornerMargin;
          corner1Z = centerZ rb + (maxZ rb - centerZ rb) * cornerMargin;
          corner2X = centerX rb + (minX rb - centerX rb) * cornerMargin;
          corner2Z = centerZ rb + (maxZ rb - centerZ rb) * cornerMargin;
          corner3X = centerX rb + (minX rb - centerX rb) * cornerMargin;
          corner3Z = centerZ rb + (minZ rb - centerZ rb) * cornerMargin;
          corner4X = centerX rb + (maxX rb - centerX rb) * cornerMargin;
          corner4Z = centerZ rb + (minZ rb - centerZ rb) * cornerMargin;
          roomSize = max (maxX rb - minX rb) (maxZ rb - minZ rb);
          lightDistance = roomSize * 0.8
      in
      [ (''off'', None),
        (''warm-evening'', Some
          \<lparr> ambientLight = \<lparr> amb_color = ''#fff5e6'', amb_intensity = 0.3 \<rparr>,
            hemisphereLight = \<lparr> skyColor = ''#fff5e6'', groundColor = ''#8B7355'',
              hemi_intensity = 0.4, hemi_position = (0, ceilingY, 0) \<rparr>,
            pointLights =
             [ \<lparr> pl_position = (corner1X, ceilingY, corner1Z), pl_color = ''#ffdb99'', pl_intensity = 1.2,
               distance = lightDistance, decay = 2, pl_castShadow = True \<rparr>,
               \<lparr> pl_position = (corner2X, ceilingY, corner2Z), pl_color = ''#ffdb99'', pl_intensity = 1.2,
               distance = lightDistance, decay = 2, pl_castShadow = True \<rparr>,
               \<lparr> pl_position = (corner3X, ceilingY, corner3Z), pl_color = ''#ffdb99'', pl_intensity = 1.2,
               distance = lightDistance, decay = 2, pl_castShadow = True \<rparr>,
               \<lparr> pl_position = (corner4X, ceilingY, corner4Z), pl_color = ''#ffdb99'', pl_intensity = 1.2,
               distance = lightDistance, decay = 2, pl_castShadow = True \<rparr>,
               \<lparr> pl_position = (centerX rb, ceilingY, centerZ rb), pl_color = ''#ffe4b3'', pl_intensity = 1.5,
               distance = lightDistance * 1.2, decay = 2, pl_castShadow = True \<rparr> ] \<rparr>),
        (''bright-day'', Some
          \<lparr> ambientLight = \<lparr> amb_color = ''#ffffff'', amb_intensity = 0.6 \<rparr>,
            hemisphereLight = \<lparr> skyColor = ''#87CEEB'', groundColor = ''#f0f0f0'',
              hemi_intensity = 0.7, hemi_position = (0, ceilingY, 0) \<rparr>,
            pointLights =
             [ \<lparr> pl_position = (corner1X, ceilingY, corner1Z), pl_color = ''#ffffff'', pl_intensity = 1.8,
               distance = lightDistance, decay = 2, pl_castShadow = True \<rparr>,
               \<lparr> pl_position = (corner2X, ceilingY, corner2Z), pl_color = ''#ffffff'', pl_intensity = 1.8,
               distance = lightDistance, decay = 2, pl_castShadow = True \<rparr>,
               \<lparr> pl_position = (corner3X, ceilingY, corner3Z), pl_color = ''#ffffff'', pl_intensity = 1.8,
               distance = lightDistance, decay = 2, pl_castShadow = True \<rparr>,
               \<lparr> pl_position = (corner4X, ceilingY, corner4Z), pl_color = ''#ffffff'', pl_intensity = 1.8,
               distance = lightDistance, decay = 2, pl_castShadow = True \<rparr>,
               \<lparr> pl_position = (centerX rb, ceilingY, centerZ rb), pl_color = ''#f5f5f5'', pl_intensity = 2.2,
               distance = lightDistance * 1.2, decay = 2, pl_castShadow = True \<rparr> ] \<rparr>),
        (''cozy-night'', Some
          \<lparr> ambientLight = \<lparr> amb_color = ''#ffd699'', amb_intensity = 0.15 \<rparr>,
            hemisphereLight = \<lparr> skyColor = ''#ffd699'', groundColor = ''#4a3728'',
              hemi_intensity = 0.2, hemi_position = (0, ceilingY, 0) \<rparr>,
            pointLights =
             [ \<lparr> pl_position = (corner1X, ceilingY, corner1Z), pl_color = ''#ffb366'', pl_intensity = 0.8,
               distance = lightDistance * 0.7, decay = 2, pl_castShadow = True \<rparr>,
               \<lparr> pl_position = (corner3X, ceilingY, corner3Z), pl_color = ''#ffb366'', pl_intensity = 0.8,
               distance = lightDistance * 0.7, decay = 2, pl_castShadow = True \<rparr>,
               \<lparr> pl_position = (centerX rb, ceilingY - 0.5, centerZ rb), pl_color = ''#ffcc80'', pl_intensity = 1.0,
               distance = lightDistance * 0.6, decay = 2, pl_castShadow = True \<rparr> ] \<rparr>),
        (''studio-neutral'', Some
          \<lparr> ambientLight = \<lparr> amb_color = ''#ffffff'', amb_intensity = 0.4 \<rparr>,
            hemisphereLight = \<lparr> skyColor = ''#ffffff'', groundColor = ''#cccccc'',
              hemi_intensity = 0.5, hemi_position = (0, ceilingY, 0) \<rparr>,
            pointLights =
             [ \<lparr> pl_position = (corner1X, ceilingY, corner1Z), pl_color = ''#ffffff'', pl_intensity = 1.4,
               distance = lightDistance, decay = 2, pl_castShadow = True \<rparr>,
               \<lparr> pl_position = (corner2X, ceilingY, corner2Z), pl_color = ''#ffffff'', pl_intensity = 1.4,
               distance = lightDistance, decay = 2, pl_castShadow = True \<rparr>,
               \<lparr> pl_position = (corner3X, ceilingY, corner3Z), pl_color = ''#ffffff'', pl_intensity = 1.4,
               distance = lightDistance, decay = 2, pl_castShadow = True \<rparr>,
               \<lparr> pl_position = (corner4X, ceilingY, corner4Z), pl_color = ''#ffffff'', pl_intensity = 1.4,
               distance = lightDistance, decay = 2, pl_castShadow = True \<rparr>,
               \<lparr> pl_position = (centerX rb, ceilingY, centerZ rb), pl_color = ''#ffffff'', pl_intensity = 1.8,
               distance = lightDistance * 1.2, decay = 2, pl_castShadow = True \<rparr> ] \<rparr>),
        (''sunset'', Some
          \<lparr> ambientLight = \<lparr> amb_color = ''#ffcc99'', amb_intensity = 0.25 \<rparr>,
            hemisphereLight = \<lparr> skyColor = ''#ff9966'', groundColor = ''#8B6347'',
              hemi_intensity = 0.35, hemi_position = (0, ceilingY, 0) \<rparr>,
            pointLights =
             [ \<lparr> pl_position = (corner1X, ceilingY, corner1Z), pl_color = ''#ff9966'', pl_intensity = 1.0,
               distance = lightDistance, decay = 2, pl_castShadow = True \<rparr>,
               \<lparr> pl_position = (corner2X, ceilingY, corner2Z), pl_color = ''#ffaa77'', pl_intensity = 1.0,
               distance = lightDistance, decay = 2, pl_castShadow = True \<rparr>,
               \<lparr> pl_position = (corner3X, ceilingY, corner3Z), pl_color = ''#ff9966'', pl_intensity = 1.0,
               distance = lightDistance, decay = 2, pl_castShadow = True \<rparr>,
               \<lparr> pl_position = (corner4X, ceilingY, corner4Z), pl_color = ''#ffaa77'', pl_intensity = 1.0,
               distance = lightDistance, decay = 2, pl_castShadow = True \<rparr>,
               \<lparr> pl_position = (centerX rb, ceilingY, centerZ rb), pl_color = ''#ffbb88'', pl_intensity = 1.3,
               distance = lightDistance * 1.2, decay = 2, pl_castShadow = True \<rparr> ] \<rparr>) ])"

definition getRoomLightingConfig :: "string \<Rightarrow> bounds option \<Rightarrow> roomRig config" where
  "getRoomLightingConfig preset roomBnds =
     (case roomBnds of
        None \<Rightarrow> Null
      | Some rb \<Rightarrow>
          (case getProperty (roomConfigs rb) preset of
             Own (Some rig) \<Rightarrow> Config rig
           | Own None \<Rightarrow> Null
           | Inherited k \<Rightarrow> PrototypeMember k
           | Undefined \<Rightarrow> Null))"

subsection \<open>The furniture resolver\<close>

definition furnitureConfigs :: "(string \<times> furnitureRig) list" where
  "furnitureConfigs =
    [
      (''default'',
        \<lparr> furn_ambientLight = \<lparr> amb_color = ''#ffffff'', amb_intensity = 0.1 \<rparr>,
          directionalLight = \<lparr> dir_color = ''#fff1e0'', dir_position = (5, 10, 7),
            dir_intensity = 1.8, dir_castShadow = True, shadowMapSize = (2048, 2048) \<rparr> \<rparr>),
      (''bright'',
        \<lparr> furn_ambientLight = \<lparr> amb_color = ''#ffffff'', amb_intensity = 0.3 \<rparr>,
          directionalLight = \<lparr> dir_color = ''#ffffff'', dir_position = (5, 10, 7),
            dir_intensity = 2.5, dir_castShadow = True, shadowMapSize = (2048, 2048) \<rparr> \<rparr>),
      (''soft'',
        \<lparr> furn_ambientLight = \<lparr> amb_color = ''#ffffff'', amb_intensity = 0.4 \<rparr>,
          directionalLight = \<lparr> dir_color = ''#fff5e6'', dir_position = (5, 10, 7),
            dir_intensity = 1.2, dir_castShadow = True, shadowMapSize = (2048, 2048) \<rparr> \<rparr>),
      (''dramatic'',
        \<lparr> furn_ambientLight = \<lparr> amb_color = ''#ffffff'', amb_intensity = 0.05 \<rparr>,
          directionalLight = \<lparr> dir_color = ''#ffffff'', dir_position = (8, 15, 10),
            dir_intensity = 3.0, dir_castShadow = True, shadowMapSize = (2048, 2048) \<rparr> \<rparr>) ]"

text \<open>
  \<^verbatim>\<open>configs[preset] || configs['default']\<close>: every rig is an object, hence truthy.
\<close>

definition getFurnitureLightingConfig :: "string \<Rightarrow> furnitureRig config" where
  "getFurnitureLightingConfig preset =
     (case getProperty furnitureConfigs preset of
        Own rig \<Rightarrow> Config rig
      | Inherited k \<Rightarrow> PrototypeMember k
      | Undefined \<Rightarrow>
          (case getProperty furnitureConfigs ''default'' of
             Own rig \<Rightarrow> Config rig
           | Inherited k \<Rightarrow> PrototypeMember k
           | Undefined \<Rightarrow> Null))"

text \<open>The preset identifiers of the two tables.\<close>

definition roomPresets :: "string list" where
  "roomPresets = [''warm-evening'', ''bright-day'', ''cozy-night'', ''studio-neutral'', ''sunset'']"

definition furniturePresets :: "string list" where
  "furniturePresets = [''default'', ''bright'', ''soft'', ''dramatic'']"

subsection \<open>The geometry of a rig, in the words of the specification\<close>

text \<open>
  A corner light sits at \<open>center + (extreme - center) * 0.8\<close> in X and in Z, for one of
  the two X extremes and one of the two Z extremes, at height \<open>maxY * 0.9\<close>; its falloff
  distance is \<open>max (maxX - minX) (maxZ - minZ) * 0.8\<close> times \<open>factor\<close>; its decay is 2.
\<close>

definition specCornerLight :: "bounds \<Rightarrow> real \<Rightarrow> pointLight \<Rightarrow> bool" where
  "specCornerLight rb factor l \<longleftrightarrow>
     list_ex (\<lambda>extremeX. list_ex (\<lambda>extremeZ.
         pl_position l =
           (centerX rb + (extremeX - centerX rb) * 0.8, maxY rb * 0.9,
            centerZ rb + (extremeZ - centerZ rb) * 0.8))
       [minZ rb, maxZ rb]) [minX rb, maxX rb] \<and>
     distance l = max (maxX rb - minX rb) (maxZ rb - minZ rb) * 0.8 * factor \<and>
     decay l = 2"

text \<open>
  A centre light sits above the centre of the bounds, \<open>lower\<close> below \<open>maxY * 0.9\<close>,
  with the same falloff distance times \<open>factor\<close> and decay 2.
\<close>

definition specCenterLight :: "bounds \<Rightarrow> real \<Rightarrow> real \<Rightarrow> pointLight \<Rightarrow> bool" where
  "specCenterLight rb lower factor l \<longleftrightarrow>
     pl_position l = (centerX rb, maxY rb * 0.9 - lower, centerZ rb) \<and>
     distance l = max (maxX rb - minX rb) (maxZ rb - minZ rb) * 0.8 * factor \<and>
     decay l = 2"

section \<open>Concrete scenes used in the examples below\<close>

definition chairFile :: glbFile where
  "chairFile = \<lparr> file_name = ''chair.glb'', dataURL = ''data:chair'' \<rparr>"

text \<open>The same file under a name that differs in the case of one letter.\<close>

definition capitalChairFile :: glbFile where
  "capitalChairFile = \<lparr> file_name = ''Chair.glb'', dataURL = ''data:chair'' \<rparr>"

definition chair :: libraryItem where
  "chair = \<lparr> name = ''chair.glb'', url = ''data:chair'' \<rparr>"

text \<open>The room-intensity slider dragged to its minimum, \<open>0\<close>.\<close>

definition dimmedStore :: store where
  "dimmedStore = run [SetRoomLightIntensity 0]"

text \<open>A chair uploaded, placed once, and clicked.\<close>

definition selectedChairStore :: store where
  "selectedChairStore =
     run [Upload (Some chairFile), AddToScene ''id-1'' chair, Select (Some ''id-1'')]"

text \<open>A chair uploaded, placed twice, the first instance clicked.\<close>

definition twoChairsStore :: store where
  "twoChairsStore =
     run [Upload (Some chairFile), AddToScene ''id-1'' chair, AddToScene ''id-2'' chair,
          Select (Some ''id-1'')]"

text \<open>A scene file whose library lists the same name twice.\<close>

definition duplicateLibraryDocument :: sceneData where
  "duplicateLibraryDocument =
     emptyDocument\<lparr>doc_library :=
       Some [chair, \<lparr> name = ''chair.glb'', url = ''data:other'' \<rparr>]\<rparr>"

text \<open>A store whose every knob differs from the defaults of \<open>loadScene\<close>.\<close>

definition customStore :: store where
  "customStore =
     run [Upload (Some chairFile), AddToScene ''id-1'' chair, SetEnvironment ''city'',
          SetRoomLightingPreset ''sunset'', SetFurnitureLightingPreset ''soft'',
          SetRoomLightIntensity 2, SetFurnitureLightIntensity 3,
          SetRoomMaterialBrightness 1.5]"

text \<open>A grey wall material with a white emissive colour at intensity 1, never adjusted.\<close>

definition glowingWall :: material where
  "glowingWall =
     \<lparr> color = \<lparr> r = 0.5, g = 0.5, b = 0.5 \<rparr>,
       emissive = Some \<lparr> r = 1, g = 1, b = 1 \<rparr>,
       emissiveIntensity = Some 1, userData = None, needsUpdate = False \<rparr>"

text \<open>An unlit wall material: no emissive colour, no emissive intensity.\<close>

definition unlitWall :: material where
  "unlitWall =
     \<lparr> color = \<lparr> r = 0.5, g = 0.5, b = 0.5 \<rparr>,
       emissive = None, emissiveIntensity = None, userData = None, needsUpdate = False \<rparr>"

text \<open>What the first adjustment of \<open>glowingWall\<close> stores in its \<open>userData\<close>.\<close>

definition glowingWallBaseline :: baseline where
  "glowingWallBaseline =
     \<lparr> originalColor = \<lparr> r = 0.5, g = 0.5, b = 0.5 \<rparr>,
       originalEmissive = Some \<lparr> r = 1, g = 1, b = 1 \<rparr>,
       originalEmissiveIntensity = 1 \<rparr>"

text \<open>A room of two meshes that share the material at address \<open>0\<close>.\<close>

definition sharedWallScene :: "node list" where
  "sharedWallScene =
     [ \<lparr> isMesh = True, castShadow = True, receiveShadow = False, material = Some 0 \<rparr>,
       \<lparr> isMesh = False, castShadow = False, receiveShadow = False, material = None \<rparr>,
       \<lparr> isMesh = True, castShadow = True, receiveShadow = False, material = Some 0 \<rparr> ]"

text \<open>The bounds of the spec's scenario: a 10 by 4 by 10 room around the origin.\<close>

definition scenarioBounds :: bounds where
  "scenarioBounds =
     \<lparr> minX = -5, maxX = 5, minY = 0, maxY = 4, minZ = -5, maxZ = 5,
       centerX = 0, centerY = 2, centerZ = 0 \<rparr>"

section \<open>The store: saving, loading, deleting\<close>

subsection \<open>Save and load\<close>

text \<open>
  When no saved knob is falsy (no empty string, no zero), loading what \<open>handleSave\<close>
  built puts back the library, the items, the environment and the five lighting knobs,
  and clears the selection, whatever the store held before.
\<close>

lemma loadScene_handleSave_truthy:
  assumes "environment s \<noteq> []" and "roomLightingPreset s \<noteq> []"
    and "furnitureLightingPreset s \<noteq> []" and "roomLightIntensity s \<noteq> 0"
    and "furnitureLightIntensity s \<noteq> 0" and "roomMaterialBrightness s \<noteq> 0"
  shows "loadScene (handleSave s) s' =
    s'\<lparr>items := items s, library := library s, environment := environment s,
       roomLightingPreset := roomLightingPreset s,
       furnitureLightingPreset := furnitureLightingPreset s,
       roomLightIntensity := roomLightIntensity s,
       furnitureLightIntensity := furnitureLightIntensity s,
       roomMaterialBrightness := roomMaterialBrightness s,
       selectedItem := None\<rparr>"
  using assms
  by (simp add: loadScene_def handleSave_def orArray_def orString_def orNumber_def)

text \<open>
  Claim C1 (save/load round trip) fails where a knob is falsy. The room-intensity slider
  has minimum \<open>0\<close>; with the slider at \<open>0\<close> the saved document holds
  \<open>roomLightIntensity = 0\<close>, and \<open>loadScene\<close> reads \<^verbatim>\<open>0 || 1.0\<close>, which is \<open>1.0\<close>:
  the loaded store has intensity \<open>1\<close>, not the saved \<open>0\<close>.
\<close>

theorem C1_zero_intensity_not_restored:
  "roomLightIntensity dimmedStore = 0 \<and>
   doc_roomLightIntensity (handleSave dimmedStore) = Some 0 \<and>
   roomLightIntensity (loadScene (handleSave dimmedStore) dimmedStore) = 1"
  by (simp add: dimmedStore_def run_def loadScene_def handleSave_def orNumber_def
      setRoomLightIntensity_def initialStore_def)

text \<open>
  Claim C8 (load defaults, full replace). For each field missing from the document,
  \<open>loadScene\<close> stores the fixed default, whatever the store held before:
  \<open>items\<close> and \<open>library\<close> empty, environment \<open>studio\<close>, room preset \<open>warm-evening\<close>,
  furniture preset \<open>default\<close>, both intensities and the brightness \<open>1.0\<close>. In
  particular the empty document yields room preset \<open>warm-evening\<close>, room intensity
  \<open>1.0\<close> and no items.
\<close>

theorem C8_loadScene_defaults:
  "(doc_items d = None \<longrightarrow> items (loadScene d s) = []) \<and>
   (doc_library d = None \<longrightarrow> library (loadScene d s) = []) \<and>
   (doc_environment d = None \<longrightarrow> environment (loadScene d s) = ''studio'') \<and>
   (doc_roomLightingPreset d = None \<longrightarrow>
      roomLightingPreset (loadScene d s) = ''warm-evening'') \<and>
   (doc_furnitureLightingPreset d = None \<longrightarrow>
      furnitureLightingPreset (loadScene d s) = ''default'') \<and>
   (doc_roomLightIntensity d = None \<longrightarrow> roomLightIntensity (loadScene d s) = 1.0) \<and>
   (doc_furnitureLightIntensity d = None \<longrightarrow>
      furnitureLightIntensity (loadScene d s) = 1.0) \<and>
   (doc_roomMaterialBrightness d = None \<longrightarrow>
      roomMaterialBrightness (loadScene d s) = 1.0) \<and>
   roomLightingPreset (loadScene emptyDocument s) = ''warm-evening'' \<and>
   roomLightIntensity (loadScene emptyDocument s) = 1.0 \<and>
   items (loadScene emptyDocument s) = []"
  by (simp add: loadScene_def emptyDocument_def orArray_def orString_def orNumber_def)

text \<open>
  The empty document loaded over a store in which every one of these fields differs
  from its default.
\<close>

theorem C8_loadScene_defaults_witness:
  "doc_items emptyDocument = None \<and> doc_library emptyDocument = None \<and>
   doc_environment emptyDocument = None \<and> doc_roomLightingPreset emptyDocument = None \<and>
   doc_furnitureLightingPreset emptyDocument = None \<and>
   doc_roomLightIntensity emptyDocument = None \<and>
   doc_furnitureLightIntensity emptyDocument = None \<and>
   doc_roomMaterialBrightness emptyDocument = None \<and>
   map item_id (items customStore) = [''id-1''] \<and> library customStore = [chair] \<and>
   environment customStore = ''city'' \<and> roomLightingPreset customStore = ''sunset'' \<and>
   furnitureLightingPreset customStore = ''soft'' \<and> roomLightIntensity customStore = 2 \<and>
   furnitureLightIntensity customStore = 3 \<and> roomMaterialBrightness customStore = 1.5 \<and>
   items (loadScene emptyDocument customStore) = [] \<and>
   library (loadScene emptyDocument customStore) = [] \<and>
   environment (loadScene emptyDocument customStore) = ''studio'' \<and>
   roomLightingPreset (loadScene emptyDocument customStore) = ''warm-evening'' \<and>
   furnitureLightingPreset (loadScene emptyDocument customStore) = ''default'' \<and>
   roomLightIntensity (loadScene emptyDocument customStore) = 1.0 \<and>
   furnitureLightIntensity (loadScene emptyDocument customStore) = 1.0 \<and>
   roomMaterialBrightness (loadScene emptyDocument customStore) = 1.0"
proof -
  have doc: "doc_items emptyDocument = None" "doc_library emptyDocument = None"
    "doc_environment emptyDocument = None" "doc_roomLightingPreset emptyDocument = None"
    "doc_furnitureLightingPreset emptyDocument = None"
    "doc_roomLightIntensity emptyDocument = None"
    "doc_furnitureLightIntensity emptyDocument = None"
    "doc_roomMaterialBrightness emptyDocument = None"
    by (simp_all add: emptyDocument_def)
  have prior: "map item_id (items customStore) = [''id-1'']" "library customStore = [chair]"
    "environment customStore = ''city''" "roomLightingPreset customStore = ''sunset''"
    "furnitureLightingPreset customStore = ''soft''" "roomLightIntensity customStore = 2"
    "furnitureLightIntensity customStore = 3" "roomMaterialBrightness customStore = 1.5"
    by (simp_all add: customStore_def run_def initialStore_def handleFileChange_def
        endsWith_def chairFile_def chair_def addLibraryItem_def handleAddItemToScene_def
        addItem_def setEnvironment_def setRoomLightingPreset_def
        setFurnitureLightingPreset_def setRoomLightIntensity_def
        setFurnitureLightIntensity_def setRoomMaterialBrightness_def)
  from C8_loadScene_defaults [of emptyDocument customStore] doc prior
  show ?thesis by simp
qed

subsection \<open>Removing a library asset\<close>

text \<open>After \<open>removeLibraryItem\<close> no scene item refers to the removed asset.\<close>

lemma removeLibraryItem_no_reference:
  "list_all (\<lambda>item. url item \<noteq> u) (items (removeLibraryItem u s))"
  by (simp add: removeLibraryItem_def list_all_iff)

text \<open>\<open>removeLibraryItem\<close> writes \<open>library\<close> and \<open>items\<close> only.\<close>

lemma removeLibraryItem_frame:
  "(removeLibraryItem u s)\<lparr>library := library s, items := items s\<rparr> = s"
  by (simp add: removeLibraryItem_def)

text \<open>
  Claim C2 (cascade delete) fails in its second half. A chair is uploaded, placed and
  selected; removing the chair from the library removes the placed item, but
  \<open>removeLibraryItem\<close> does not write \<open>selectedItem\<close>: the selection still names the item
  that is gone. (\<open>deleteItem\<close> and \<open>loadScene\<close> do reset the selection.)
\<close>

theorem C2_selection_survives_asset_removal:
  "map item_id (items selectedChairStore) = [''id-1''] \<and>
   map url (items selectedChairStore) = [''data:chair''] \<and>
   selectedItem selectedChairStore = Some ''id-1'' \<and>
   items (removeLibraryItem ''data:chair'' selectedChairStore) = [] \<and>
   selectedItem (removeLibraryItem ''data:chair'' selectedChairStore) = Some ''id-1''"
  by (simp add: selectedChairStore_def run_def handleFileChange_def endsWith_def
      chairFile_def chair_def addLibraryItem_def handleAddItemToScene_def addItem_def
      setSelectedItem_def removeLibraryItem_def initialStore_def)

subsection \<open>Deleting an item\<close>

text \<open>
  Claim C10 as stated fails: with two chairs placed and the first selected, deleting
  the second clears the selection, although the selected item is another one and is
  still in the scene.
\<close>

theorem C10_deleteItem_other_counterexample:
  "map item_id (items twoChairsStore) = [''id-1'', ''id-2''] \<and>
   selectedItem twoChairsStore = Some ''id-1'' \<and>
   map item_id (items (deleteItem ''id-2'' twoChairsStore)) = [''id-1''] \<and>
   selectedItem (deleteItem ''id-2'' twoChairsStore) = None"
  by (simp add: twoChairsStore_def run_def handleFileChange_def endsWith_def
      chairFile_def chair_def addLibraryItem_def handleAddItemToScene_def addItem_def
      setSelectedItem_def deleteItem_def initialStore_def)

text \<open>
  Claim C10, amended. \<open>deleteItem\<close> always sets the selection to none, whichever item
  was selected; it keeps exactly the items whose id differs from the given one; and it
  changes no store field other than \<open>items\<close> and \<open>selectedItem\<close>.
\<close>

theorem C10_deleteItem_clears_selection:
  "selectedItem (deleteItem i s) = None \<and>
   items (deleteItem i s) = filter (\<lambda>item. item_id item \<noteq> i) (items s) \<and>
   (deleteItem i s)\<lparr>items := items s, selectedItem := selectedItem s\<rparr> = s"
  by (simp add: deleteItem_def)

subsection \<open>Names in the library\<close>

lemma run_snoc: "run (acts @ [a]) = perform (run acts) a"
  by (simp add: run_def)

lemma handleFileChange_distinct:
  "distinct (map name (library s)) \<Longrightarrow>
   distinct (map name (library (snd (handleFileChange f s))))"
  by (cases f) (auto simp: handleFileChange_def addLibraryItem_def list_ex_iff)

lemma removeLibraryItem_distinct:
  "distinct (map name (library s)) \<Longrightarrow>
   distinct (map name (library (removeLibraryItem u s)))"
  by (simp add: removeLibraryItem_def distinct_map_filter)

lemma library_loadScene: "library (loadScene d s) = orArray (doc_library d) []"
  by (simp add: loadScene_def)

lemma perform_distinct:
  assumes "distinct (map name (library s))" and "loadsDistinct a"
  shows "distinct (map name (library (perform s a)))"
proof (cases a)
  case (Upload f)
  with assms show ?thesis by (simp add: handleFileChange_distinct)
next
  case (RemoveFromLibrary u)
  with assms show ?thesis by (simp add: removeLibraryItem_distinct)
next
  case DeleteSelected
  with assms show ?thesis by (simp add: deleteItem_def split: option.splits)
next
  case (LoadScene d)
  with assms(2) show ?thesis by (simp add: loadsDistinct_def library_loadScene)
qed (use assms in \<open>simp_all add: handleAddItemToScene_def addItem_def updateItem_def
      setSelectedItem_def setTransformMode_def setEnvironment_def setRoomLightingPreset_def
      setFurnitureLightingPreset_def setRoomLightIntensity_def
      setFurnitureLightIntensity_def setRoomMaterialBrightness_def setRoomBounds_def\<close>)

lemma run_distinct:
  "list_all loadsDistinct acts \<Longrightarrow> distinct (map name (library (run acts)))"
proof (induction acts rule: rev_induct)
  case Nil
  show ?case by (simp add: run_def initialStore_def)
next
  case (snoc a acts)
  then show ?case by (simp add: run_snoc perform_distinct)
qed

lemma handleFileChange_duplicate:
  assumes "list_ex (\<lambda>item. name item = file_name fl) (library s)"
    and "endsWith (file_name fl) ''.glb''"
  shows "handleFileChange (Some fl) s = (Some (file_name fl @ '' is already in the library.''), s)"
  using assms by (simp add: handleFileChange_def)

lemma handleFileChange_new:
  assumes "\<not> list_ex (\<lambda>item. name item = file_name fl) (library s)"
    and "endsWith (file_name fl) ''.glb''"
  shows "handleFileChange (Some fl) s =
    (None, s\<lparr>library := library s @ [\<lparr> name = file_name fl, url = dataURL fl \<rparr>]\<rparr>)"
  using assms by (simp add: handleFileChange_def addLibraryItem_def)

lemma handleFileChange_present:
  assumes "list_ex (\<lambda>item. name item = file_name fl) (library s)"
  shows "snd (handleFileChange (Some fl) s) = s" and "fst (handleFileChange (Some fl) s) \<noteq> None"
  using assms by (simp_all add: handleFileChange_def)

lemma case_sensitive_upload:
  "map name (library (run [Upload (Some chairFile), Upload (Some capitalChairFile)])) =
     [''chair.glb'', ''Chair.glb'']"
  by (simp add: run_def initialStore_def handleFileChange_def endsWith_def chairFile_def
      capitalChairFile_def addLibraryItem_def)

text \<open>
  Claim C9 as stated fails twice. \<open>addLibraryItem\<close> with a name that is already in the
  library appends a second entry of that name; and a scene file whose library lists one
  name twice is loaded as it is.
\<close>

theorem C9_duplicate_name_counterexample:
  "name chair \<in> set (map name (library (addLibraryItem chair initialStore))) \<and>
   library (addLibraryItem chair (addLibraryItem chair initialStore)) = [chair, chair] \<and>
   library (addLibraryItem chair (addLibraryItem chair initialStore)) \<noteq>
     library (addLibraryItem chair initialStore) \<and>
   \<not> distinct (map name (library (addLibraryItem chair (addLibraryItem chair initialStore)))) \<and>
   \<not> distinct (map name (library (run [LoadScene duplicateLibraryDocument])))"
  by (simp add: addLibraryItem_def initialStore_def chair_def run_def loadScene_def
      duplicateLibraryDocument_def emptyDocument_def orArray_def)

text \<open>
  Claim C9, amended. The store's \<open>addLibraryItem\<close> appends unconditionally. The check
  is made by the upload handler \<open>handleFileChange\<close>, which compares names
  case-sensitively (so \<open>Chair.glb\<close> is accepted beside \<open>chair.glb\<close>): when the file's name
  is already in the library it shows an alert and leaves the store unchanged (for a
  \<open>.glb\<close> file the alert that the name is already in the library), and when a \<open>.glb\<close>
  file's name is not there it appends the asset. \<open>loadScene\<close> installs the document's
  library unchecked; loading what \<open>handleSave\<close> built installs the saved library. An
  upload keeps the names distinct from any store in which they are distinct. Hence the
  library holds no two assets of one name in every store reached from the initial one
  by user actions in which no loaded scene file lists a name twice in its library (each
  upload completing before the next action).
\<close>

theorem C9_names_unique_unless_loaded_twice:
  "library (addLibraryItem newItem s) = library s @ [newItem] \<and>
   (list_ex (\<lambda>item. name item = file_name fl) (library s) \<longrightarrow>
      snd (handleFileChange (Some fl) s) = s \<and> fst (handleFileChange (Some fl) s) \<noteq> None) \<and>
   (list_ex (\<lambda>item. name item = file_name fl) (library s) \<and>
    endsWith (file_name fl) ''.glb'' \<longrightarrow>
      handleFileChange (Some fl) s =
        (Some (file_name fl @ '' is already in the library.''), s)) \<and>
   (\<not> list_ex (\<lambda>item. name item = file_name fl) (library s) \<and>
    endsWith (file_name fl) ''.glb'' \<longrightarrow>
      handleFileChange (Some fl) s =
        (None, s\<lparr>library := library s @ [\<lparr> name = file_name fl, url = dataURL fl \<rparr>]\<rparr>)) \<and>
   map name (library (run [Upload (Some chairFile), Upload (Some capitalChairFile)])) =
     [''chair.glb'', ''Chair.glb''] \<and>
   library (loadScene d s) = (case doc_library d of None \<Rightarrow> [] | Some lib \<Rightarrow> lib) \<and>
   library (loadScene (handleSave s) s') = library s \<and>
   (distinct (map name (library s)) \<longrightarrow>
      distinct (map name (library (snd (handleFileChange f s))))) \<and>
   (list_all loadsDistinct acts \<longrightarrow> distinct (map name (library (run acts))))"
proof (intro conjI impI)
  show "library (addLibraryItem newItem s) = library s @ [newItem]"
    by (simp add: addLibraryItem_def)
next
  assume "list_ex (\<lambda>item. name item = file_name fl) (library s)"
  then show "snd (handleFileChange (Some fl) s) = s"
    and "fst (handleFileChange (Some fl) s) \<noteq> None"
    by (rule handleFileChange_present)+
next
  assume "list_ex (\<lambda>item. name item = file_name fl) (library s) \<and>
    endsWith (file_name fl) ''.glb''"
  then show "handleFileChange (Some fl) s =
      (Some (file_name fl @ '' is already in the library.''), s)"
    by (simp add: handleFileChange_duplicate)
next
  assume "\<not> list_ex (\<lambda>item. name item = file_name fl) (library s) \<and>
    endsWith (file_name fl) ''.glb''"
  then show "handleFileChange (Some fl) s =
      (None, s\<lparr>library := library s @ [\<lparr> name = file_name fl, url = dataURL fl \<rparr>]\<rparr>)"
    by (simp add: handleFileChange_new)
next
  show "map name (library (run [Upload (Some chairFile), Upload (Some capitalChairFile)])) =
     [''chair.glb'', ''Chair.glb'']"
    by (rule case_sensitive_upload)
next
  show "library (loadScene d s) = (case doc_library d of None \<Rightarrow> [] | Some lib \<Rightarrow> lib)"
    by (simp add: library_loadScene orArray_def)
next
  show "library (loadScene (handleSave s) s') = library s"
    by (simp add: library_loadScene handleSave_def orArray_def)
next
  assume "distinct (map name (library s))"
  then show "distinct (map name (library (snd (handleFileChange f s))))"
    by (rule handleFileChange_distinct)
next
  assume "list_all loadsDistinct acts"
  then show "distinct (map name (library (run acts)))"
    by (rule run_distinct)
qed

text \<open>
  With the chair in the library: a second upload of \<open>chair.glb\<close> is refused with the
  alert, an upload of \<open>Chair.glb\<close> is accepted, and the names stay distinct. And a
  session that uploads the chair twice, loads a file saved with the chair in the
  library, uploads \<open>Chair.glb\<close>, removes the chair and uploads it again ends with
  distinct names.
\<close>

theorem C9_names_unique_unless_loaded_twice_witness:
  "list_ex (\<lambda>item. name item = file_name chairFile) (library (run [Upload (Some chairFile)])) \<and>
   endsWith (file_name chairFile) ''.glb'' \<and>
   handleFileChange (Some chairFile) (run [Upload (Some chairFile)]) =
     (Some ''chair.glb is already in the library.'', run [Upload (Some chairFile)]) \<and>
   \<not> list_ex (\<lambda>item. name item = file_name capitalChairFile)
        (library (run [Upload (Some chairFile)])) \<and>
   endsWith (file_name capitalChairFile) ''.glb'' \<and>
   fst (handleFileChange (Some capitalChairFile) (run [Upload (Some chairFile)])) = None \<and>
   distinct (map name (library (run [Upload (Some chairFile)]))) \<and>
   distinct (map name (library
     (snd (handleFileChange (Some capitalChairFile) (run [Upload (Some chairFile)]))))) \<and>
   list_all loadsDistinct
     [Upload (Some chairFile), Upload (Some chairFile),
      LoadScene (handleSave (run [Upload (Some chairFile)])),
      Upload (Some capitalChairFile), RemoveFromLibrary ''data:chair'',
      Upload (Some chairFile)] \<and>
   distinct (map name (library (run
     [Upload (Some chairFile), Upload (Some chairFile),
      LoadScene (handleSave (run [Upload (Some chairFile)])),
      Upload (Some capitalChairFile), RemoveFromLibrary ''data:chair'',
      Upload (Some chairFile)])))"
proof -
  have lib: "library (run [Upload (Some chairFile)]) = [chair]"
    by (simp add: run_def initialStore_def handleFileChange_def endsWith_def chairFile_def
        chair_def addLibraryItem_def)
  have present:
    "list_ex (\<lambda>item. name item = file_name chairFile) (library (run [Upload (Some chairFile)]))"
    "endsWith (file_name chairFile) ''.glb''"
    unfolding lib by (simp_all add: chair_def chairFile_def endsWith_def)
  have absent:
    "\<not> list_ex (\<lambda>item. name item = file_name capitalChairFile)
        (library (run [Upload (Some chairFile)]))"
    "endsWith (file_name capitalChairFile) ''.glb''"
    unfolding lib by (simp_all add: chair_def capitalChairFile_def endsWith_def)
  have one: "distinct (map name (library (run [Upload (Some chairFile)])))"
    by (simp add: lib)
  have loads: "list_all loadsDistinct
     [Upload (Some chairFile), Upload (Some chairFile),
      LoadScene (handleSave (run [Upload (Some chairFile)])),
      Upload (Some capitalChairFile), RemoveFromLibrary ''data:chair'',
      Upload (Some chairFile)]"
    by (simp add: loadsDistinct_def handleSave_def orArray_def lib)
  have alert: "file_name chairFile @ '' is already in the library.'' =
      ''chair.glb is already in the library.''"
    by (simp add: chairFile_def)
  from C9_names_unique_unless_loaded_twice
         [where s = "run [Upload (Some chairFile)]" and fl = chairFile
            and f = "Some capitalChairFile"
            and acts = "[Upload (Some chairFile), Upload (Some chairFile),
              LoadScene (handleSave (run [Upload (Some chairFile)])),
              Upload (Some capitalChairFile), RemoveFromLibrary ''data:chair'',
              Upload (Some chairFile)]"]
       C9_names_unique_unless_loaded_twice
         [where s = "run [Upload (Some chairFile)]" and fl = capitalChairFile]
       present absent one loads alert
  show ?thesis by simp
qed

section \<open>The brightness adjustment\<close>

subsection \<open>One material\<close>

lemma applyBrightness_twice:
  "applyBrightness k2 bl (applyBrightness k1 bl m) = applyBrightness k2 bl m"
  by (cases "emissive m"; cases "originalEmissive bl")
     (simp_all add: applyBrightness_def Let_def)

lemma userData_applyBrightness: "userData (applyBrightness k bl m) = userData m"
  by (simp add: applyBrightness_def Let_def split: option.splits)

lemma adjustRoomMaterial_twice:
  "adjustRoomMaterial k2 (adjustRoomMaterial k1 m) = adjustRoomMaterial k2 m"
proof (cases "userData m")
  case None
  define bl where "bl = \<lparr> originalColor = color m, originalEmissive = emissive m,
      originalEmissiveIntensity = (case emissiveIntensity m of None \<Rightarrow> 0 | Some v \<Rightarrow> v) \<rparr>"
  have first: "adjustRoomMaterial k m = applyBrightness k bl (m\<lparr>userData := Some bl\<rparr>)" for k
    using None by (simp add: adjustRoomMaterial_def bl_def Let_def)
  have "userData (adjustRoomMaterial k1 m) = Some bl"
    by (simp add: first userData_applyBrightness)
  then have "adjustRoomMaterial k2 (adjustRoomMaterial k1 m) =
      applyBrightness k2 bl (adjustRoomMaterial k1 m)"
    by (simp add: adjustRoomMaterial_def)
  then show ?thesis by (simp add: first applyBrightness_twice)
next
  case (Some bl)
  then have later: "adjustRoomMaterial k m = applyBrightness k bl m" for k
    by (simp add: adjustRoomMaterial_def)
  have "userData (adjustRoomMaterial k1 m) = Some bl"
    using Some by (simp add: later userData_applyBrightness)
  then have "adjustRoomMaterial k2 (adjustRoomMaterial k1 m) =
      applyBrightness k2 bl (adjustRoomMaterial k1 m)"
    by (simp add: adjustRoomMaterial_def)
  then show ?thesis by (simp add: later applyBrightness_twice)
qed

lemma userData_kept:
  "userData m = Some bl \<Longrightarrow> userData (adjustRoomMaterial k m) = Some bl"
  by (simp add: adjustRoomMaterial_def userData_applyBrightness)

lemma adjustments_snoc:
  "adjustments (ks @ [k]) m = adjustRoomMaterial k (adjustments ks m)"
  by (simp add: adjustments_def)

lemma adjust_after_adjustments:
  "adjustRoomMaterial k (adjustments ks m) = adjustRoomMaterial k m"
proof (induction ks rule: rev_induct)
  case Nil
  show ?case by (simp add: adjustments_def)
next
  case (snoc k' ks)
  then show ?case by (simp add: adjustments_snoc adjustRoomMaterial_twice)
qed

lemma adjust_fresh:
  assumes "userData m = None"
  shows "color (adjustRoomMaterial k m) =
           \<lparr> r = min (r (color m) * k) 1, g = min (g (color m) * k) 1,
             b = min (b (color m) * k) 1 \<rparr>"
    and "emissive (adjustRoomMaterial k m) = emissive m"
    and "emissiveIntensity (adjustRoomMaterial k m) =
           (case emissive m of
              None \<Rightarrow> emissiveIntensity m
            | Some e \<Rightarrow> Some ((case emissiveIntensity m of None \<Rightarrow> 0 | Some v \<Rightarrow> v)
                                + (k - 1) * 0.5))"
  using assms
  by (simp_all add: adjustRoomMaterial_def applyBrightness_def Let_def split: option.splits)

subsection \<open>The traversal of the room scene\<close>

lemma snd_traverse_Cons:
  "snd (traverse isRoom k (c # cs) h) =
     snd (traverse isRoom k cs (snd (visitChild isRoom k c h)))"
  by (simp add: case_prod_beta)

lemma snd_visitChild_room:
  "snd (visitChild True k c h) =
     (if isMesh c then (case material c of None \<Rightarrow> h
                        | Some a \<Rightarrow> h(a := adjustRoomMaterial k (h a)))
      else h)"
  by (simp add: visitChild_def)

lemma usesMaterial_Cons:
  "usesMaterial (c # cs) a \<longleftrightarrow> (isMesh c \<and> material c = Some a) \<or> usesMaterial cs a"
  by (simp add: usesMaterial_def)

text \<open>Furniture (any model that is not the room) has its materials left alone.\<close>

lemma snd_traverse_furniture: "snd (traverse False k cs h) = h"
  by (induction cs arbitrary: h) (simp_all add: visitChild_def case_prod_beta)

text \<open>
  One run of the effect on the room adjusts each material that some mesh carries, once
  in effect however many meshes share it, and leaves the other materials alone.
\<close>

lemma snd_traverse_room:
  "snd (traverse True k cs h) a =
     (if usesMaterial cs a then adjustRoomMaterial k (h a) else h a)"
proof (induction cs arbitrary: h)
  case Nil
  show ?case by (simp add: usesMaterial_def)
next
  case (Cons c cs)
  show ?case
  proof (cases "isMesh c")
    case False
    then show ?thesis
      unfolding snd_traverse_Cons
      by (simp add: snd_visitChild_room usesMaterial_Cons Cons.IH del: traverse.simps)
  next
    case True
    show ?thesis
    proof (cases "material c")
      case None
      with True show ?thesis
        unfolding snd_traverse_Cons
        by (simp add: snd_visitChild_room usesMaterial_Cons Cons.IH del: traverse.simps)
    next
      case (Some a')
      with True show ?thesis
        unfolding snd_traverse_Cons
        by (simp add: snd_visitChild_room usesMaterial_Cons Cons.IH
            adjustRoomMaterial_twice del: traverse.simps)
    qed
  qed
qed

lemma traverse_twice:
  "snd (traverse True k2 cs (snd (traverse True k1 cs h))) = snd (traverse True k2 cs h)"
  by (rule ext) (simp add: snd_traverse_room adjustRoomMaterial_twice)

subsection \<open>The claims\<close>

text \<open>
  Claim C3 as stated fails in its emissive-intensity part. At brightness \<open>0.5\<close> (the
  slider's minimum) a material with emissive intensity \<open>1\<close> ends at \<open>0.75\<close>, where the
  claim's \<open>baseline + max(b - 1, 0) * 0.5\<close> is \<open>1\<close>. And a material without an emissive
  colour keeps its emissive intensity untouched (here: undefined), where the claim's
  formula gives \<open>0 + 0.5\<close> at brightness \<open>2\<close>.
\<close>

theorem C3_emissive_intensity_counterexample:
  "emissiveIntensity (adjustRoomMaterial 0.5 glowingWall) = Some 0.75 \<and>
   emissiveIntensity (adjustRoomMaterial 0.5 glowingWall) \<noteq> Some (1 + max (0.5 - 1) 0 * 0.5) \<and>
   emissiveIntensity (adjustRoomMaterial 2 unlitWall) = None \<and>
   emissiveIntensity (adjustRoomMaterial 2 unlitWall) \<noteq> Some (0 + max (2 - 1) 0 * 0.5)"
  by (simp add: adjustRoomMaterial_def applyBrightness_def glowingWall_def unlitWall_def
      Let_def)

text \<open>
  Claim C3, amended. Let \<open>m0\<close> be a material the effect has not met (no baseline yet)
  and \<open>m\<close> what any sequence of adjustments \<open>ks\<close> followed by the adjustment with
  brightness \<open>k\<close> makes of it; the baseline is then \<open>m0\<close>'s colour, emissive colour and
  emissive intensity (\<open>0\<close> when undefined). Each colour channel of \<open>m\<close> is
  \<open>min (baseline channel * k) 1\<close>, hence at most \<open>1\<close>; the emissive colour is the
  baseline's; if the material has an emissive colour its emissive intensity is
  \<open>baseline + (k - 1) * 0.5\<close> (above the baseline when \<open>k > 1\<close>, below it when
  \<open>k < 1\<close>), which is the claim's \<open>baseline + max (k - 1) 0 * 0.5\<close> whenever \<open>k \<ge> 1\<close>;
  if it has none, its emissive intensity is not written.
\<close>

theorem C3_brightness_postcondition:
  assumes "userData m0 = None"
    and "m = adjustRoomMaterial k (adjustments ks m0)"
    and "base = (case emissiveIntensity m0 of None \<Rightarrow> 0 | Some v \<Rightarrow> v)"
  shows "r (color m) = min (r (color m0) * k) 1 \<and>
         g (color m) = min (g (color m0) * k) 1 \<and>
         b (color m) = min (b (color m0) * k) 1 \<and>
         r (color m) \<le> 1 \<and> g (color m) \<le> 1 \<and> b (color m) \<le> 1 \<and>
         emissive m = emissive m0 \<and>
         (emissive m0 \<noteq> None \<longrightarrow> emissiveIntensity m = Some (base + (k - 1) * 0.5)) \<and>
         (emissive m0 \<noteq> None \<longrightarrow> 1 \<le> k \<longrightarrow>
            emissiveIntensity m = Some (base + max (k - 1) 0 * 0.5)) \<and>
         (emissive m0 = None \<longrightarrow> emissiveIntensity m = emissiveIntensity m0)"
proof -
  have m: "m = adjustRoomMaterial k m0"
    using assms(2) by (simp add: adjust_after_adjustments)
  have col: "color m = \<lparr> r = min (r (color m0) * k) 1, g = min (g (color m0) * k) 1,
      b = min (b (color m0) * k) 1 \<rparr>"
    unfolding m using assms(1) by (rule adjust_fresh(1))
  have em: "emissive m = emissive m0"
    unfolding m using assms(1) by (rule adjust_fresh(2))
  have int: "emissiveIntensity m =
      (case emissive m0 of None \<Rightarrow> emissiveIntensity m0
       | Some e \<Rightarrow> Some (base + (k - 1) * 0.5))"
    unfolding m assms(3) using assms(1) by (rule adjust_fresh(3))
  have "1 \<le> k \<Longrightarrow> max (k - 1) 0 = k - 1"
    by simp
  with col em int show ?thesis
    by (auto split: option.splits)
qed

text \<open>
  The grey glowing wall, dimmed to \<open>0.5\<close> after having been at \<open>2\<close> and \<open>3\<close>, and
  brightened to \<open>3\<close>: the channels \<open>0.5\<close> become \<open>0.25\<close> and \<open>1\<close> (clamped), the emissive
  intensity \<open>1\<close> becomes \<open>0.75\<close> and \<open>2\<close>.
\<close>

theorem C3_brightness_postcondition_witness:
  "userData glowingWall = None \<and> emissive glowingWall \<noteq> None \<and>
   r (color (adjustRoomMaterial 0.5 (adjustments [2, 3] glowingWall))) = 0.25 \<and>
   emissive (adjustRoomMaterial 0.5 (adjustments [2, 3] glowingWall)) = emissive glowingWall \<and>
   emissiveIntensity (adjustRoomMaterial 0.5 (adjustments [2, 3] glowingWall)) = Some 0.75 \<and>
   r (color (adjustRoomMaterial 3 (adjustments [] glowingWall))) = 1 \<and>
   emissiveIntensity (adjustRoomMaterial 3 (adjustments [] glowingWall)) = Some 2"
proof -
  have fresh: "userData glowingWall = None" "emissive glowingWall \<noteq> None"
    "emissiveIntensity glowingWall = Some 1" "r (color glowingWall) = 0.5"
    by (simp_all add: glowingWall_def)
  from C3_brightness_postcondition [OF fresh(1) refl refl, of "0.5" "[2, 3]"]
       C3_brightness_postcondition [OF fresh(1) refl refl, of 3 "[]"] fresh
  show ?thesis by simp
qed

text \<open>
  Claim C4 (idempotent, drift-free). The baseline in \<open>userData\<close> is written by the first
  adjustment only: a second adjustment leaves \<open>userData\<close> as the first left it, and a
  stored baseline is never replaced. Adjusting twice with one brightness gives the
  material that adjusting once gives, and adjusting with \<open>k1\<close> and then \<open>k2\<close> gives the
  material that \<open>k2\<close> alone gives from the original; likewise for whole runs of the
  effect over the room's nodes, whichever meshes share materials.
\<close>

theorem C4_brightness_idempotent_drift_free:
  "userData (adjustRoomMaterial k2 (adjustRoomMaterial k1 m)) =
     userData (adjustRoomMaterial k1 m) \<and>
   (userData m = Some bl \<longrightarrow> userData (adjustRoomMaterial k1 m) = Some bl) \<and>
   adjustRoomMaterial k1 (adjustRoomMaterial k1 m) = adjustRoomMaterial k1 m \<and>
   adjustRoomMaterial k2 (adjustRoomMaterial k1 m) = adjustRoomMaterial k2 m \<and>
   snd (traverse True k1 cs (snd (traverse True k1 cs h))) = snd (traverse True k1 cs h) \<and>
   snd (traverse True k2 cs (snd (traverse True k1 cs h))) = snd (traverse True k2 cs h)"
proof -
  obtain bl' where "userData (adjustRoomMaterial k1 m) = Some bl'"
    by (cases "userData m")
       (simp_all add: adjustRoomMaterial_def userData_applyBrightness Let_def)
  then have "userData (adjustRoomMaterial k2 (adjustRoomMaterial k1 m)) =
      userData (adjustRoomMaterial k1 m)"
    by (simp add: userData_kept)
  then show ?thesis
    by (simp add: userData_kept adjustRoomMaterial_twice traverse_twice)
qed

text \<open>
  The glowing wall after a first adjustment with \<open>1.5\<close> holds its baseline; adjusting
  it again with \<open>1.5\<close> or with \<open>2\<close> keeps that baseline, and gives the colour
  \<open>0.75\<close> again, respectively the colour \<open>1\<close> that \<open>2\<close> gives from the original. The same
  for a room whose two meshes share the wall material.
\<close>

theorem C4_brightness_idempotent_drift_free_witness:
  "userData (adjustRoomMaterial 1.5 glowingWall) = Some glowingWallBaseline \<and>
   userData (adjustRoomMaterial 2 (adjustRoomMaterial 1.5 glowingWall)) =
     Some glowingWallBaseline \<and>
   r (color (adjustRoomMaterial 1.5 (adjustRoomMaterial 1.5 glowingWall))) = 0.75 \<and>
   r (color (adjustRoomMaterial 2 (adjustRoomMaterial 1.5 glowingWall))) = 1 \<and>
   r (color (snd (traverse True 2 sharedWallScene
        (snd (traverse True 1.5 sharedWallScene (\<lambda>a. glowingWall)))) 0)) = 1"
proof -
  have first: "userData (adjustRoomMaterial 1.5 glowingWall) = Some glowingWallBaseline"
    by (simp add: adjustRoomMaterial_def applyBrightness_def glowingWall_def
        glowingWallBaseline_def Let_def)
  have once: "r (color (adjustRoomMaterial 1.5 glowingWall)) = 0.75"
    "r (color (adjustRoomMaterial 2 glowingWall)) = 1"
    by (simp_all add: adjustRoomMaterial_def applyBrightness_def glowingWall_def Let_def)
  have room: "snd (traverse True 2 sharedWallScene (\<lambda>a. glowingWall)) 0 =
      adjustRoomMaterial 2 glowingWall"
    by (simp add: sharedWallScene_def visitChild_def adjustRoomMaterial_twice)
  from C4_brightness_idempotent_drift_free
         [of 2 "1.5" glowingWall glowingWallBaseline sharedWallScene "\<lambda>a. glowingWall"]
       C4_brightness_idempotent_drift_free
         [of 2 "1.5" "adjustRoomMaterial 1.5 glowingWall" glowingWallBaseline]
       first once room
  show ?thesis by simp
qed

section \<open>The lighting resolvers\<close>

subsection \<open>Property lookup\<close>

lemma roomConfigs_keys: "map fst (roomConfigs rb) = ''off'' # roomPresets"
  by (simp add: roomConfigs_def roomPresets_def Let_def)

lemma furnitureConfigs_keys: "map fst furnitureConfigs = furniturePresets"
  by (simp add: furnitureConfigs_def furniturePresets_def)

lemma getProperty_Undefined:
  "key \<notin> set (map fst obj) \<Longrightarrow> key \<notin> set objectPrototype \<Longrightarrow>
   getProperty obj key = Undefined"
  by (simp add: getProperty_def map_of_eq_None_iff [THEN iffD2])

lemma getProperty_Inherited:
  "key \<notin> set (map fst obj) \<Longrightarrow> key \<in> set objectPrototype \<Longrightarrow>
   getProperty obj key = Inherited key"
  by (simp add: getProperty_def map_of_eq_None_iff [THEN iffD2])

lemma objectPrototype_not_preset:
  assumes "key \<in> set objectPrototype"
  shows "key \<notin> set (''off'' # roomPresets)" and "key \<notin> set furniturePresets"
  using assms by (auto simp: objectPrototype_def roomPresets_def furniturePresets_def)

subsection \<open>The room resolver\<close>

lemma getRoomLightingConfig_off: "getRoomLightingConfig ''off'' bnds = Null"
  by (cases bnds)
     (simp_all add: getRoomLightingConfig_def getProperty_def roomConfigs_def Let_def)

lemma getRoomLightingConfig_absent: "getRoomLightingConfig preset None = Null"
  by (simp add: getRoomLightingConfig_def)

text \<open>
  An identifier that is neither in the table nor the name of a member of
  \<open>Object.prototype\<close> resolves to \<open>null\<close>.
\<close>

lemma getRoomLightingConfig_unknown:
  assumes "preset \<notin> set (''off'' # roomPresets)" and "preset \<notin> set objectPrototype"
  shows "getRoomLightingConfig preset bnds = Null"
proof (cases bnds)
  case None
  then show ?thesis by (simp add: getRoomLightingConfig_def)
next
  case (Some rb)
  from assms(1) have "preset \<notin> set (map fst (roomConfigs rb))"
    unfolding roomConfigs_keys .
  then have "getProperty (roomConfigs rb) preset = Undefined"
    using assms(2) by (rule getProperty_Undefined)
  with Some show ?thesis by (simp add: getRoomLightingConfig_def)
qed

text \<open>The name of a member of \<open>Object.prototype\<close> resolves to that member.\<close>

lemma getRoomLightingConfig_inherited:
  assumes "preset \<in> set objectPrototype"
  shows "getRoomLightingConfig preset (Some rb) = PrototypeMember preset"
proof -
  from assms have "preset \<notin> set (map fst (roomConfigs rb))"
    unfolding roomConfigs_keys by (rule objectPrototype_not_preset(1))
  then have "getProperty (roomConfigs rb) preset = Inherited preset"
    using assms by (rule getProperty_Inherited)
  then show ?thesis by (simp add: getRoomLightingConfig_def)
qed

text \<open>The four presets with five lights, and the one with three.\<close>

lemma five_light_rig:
  assumes "preset \<in> {''warm-evening'', ''bright-day'', ''studio-neutral'', ''sunset''}"
  shows "\<exists>rig. getRoomLightingConfig preset (Some rb) = Config rig \<and>
     length (pointLights rig) = 5 \<and>
     list_all (specCornerLight rb 1) (butlast (pointLights rig)) \<and>
     specCenterLight rb 0 1.2 (last (pointLights rig))"
  using assms
  by (auto simp: getRoomLightingConfig_def getProperty_def roomConfigs_def Let_def
      specCornerLight_def specCenterLight_def)

lemma three_light_rig:
  "\<exists>rig. getRoomLightingConfig ''cozy-night'' (Some rb) = Config rig \<and>
     length (pointLights rig) = 3 \<and>
     list_all (specCornerLight rb 0.7) (butlast (pointLights rig)) \<and>
     specCenterLight rb 0.5 0.6 (last (pointLights rig))"
  by (simp add: getRoomLightingConfig_def getProperty_def roomConfigs_def Let_def
      specCornerLight_def specCenterLight_def)

lemma scenario_rig:
  "\<exists>rig. getRoomLightingConfig ''warm-evening'' (Some scenarioBounds) = Config rig \<and>
     pl_position (pointLights rig ! 0) = (4, 3.6, 4) \<and>
     pl_position (pointLights rig ! 4) = (0, 3.6, 0) \<and>
     distance (pointLights rig ! 4) = 9.6"
  by (simp add: getRoomLightingConfig_def getProperty_def roomConfigs_def Let_def
      scenarioBounds_def)

text \<open>
  Claim C5 (room rig geometry). The table's identifiers are \<open>off\<close> and the five of
  \<open>roomPresets\<close>. For each of the five and any bounds the resolver returns a rig; all
  its point lights but the last are corner lights and the last is the centre light, in
  the sense of \<open>specCornerLight\<close> and \<open>specCenterLight\<close>: corner factor \<open>1\<close>, centre factor
  \<open>1.2\<close> and centre height \<open>maxY * 0.9\<close>, except for \<open>cozy-night\<close>, which has corner factor
  \<open>0.7\<close>, centre factor \<open>0.6\<close> and its centre light \<open>0.5\<close> lower. For the scenario's bounds
  and \<open>warm-evening\<close>, the first light is at \<open>(4, 3.6, 4)\<close> and the centre light at
  \<open>(0, 3.6, 0)\<close> with falloff distance \<open>9.6\<close>.
\<close>

theorem C5_room_rig_geometry:
  "map fst (roomConfigs rb) = ''off'' # roomPresets \<and>
   (preset \<in> set roomPresets \<longrightarrow>
     (\<exists>rig. getRoomLightingConfig preset (Some rb) = Config rig \<and>
        list_all (specCornerLight rb (if preset = ''cozy-night'' then 0.7 else 1))
          (butlast (pointLights rig)) \<and>
        specCenterLight rb (if preset = ''cozy-night'' then 0.5 else 0)
          (if preset = ''cozy-night'' then 0.6 else 1.2) (last (pointLights rig)))) \<and>
   (\<exists>rig. getRoomLightingConfig ''warm-evening'' (Some scenarioBounds) = Config rig \<and>
      pl_position (pointLights rig ! 0) = (4, 3.6, 4) \<and>
      pl_position (pointLights rig ! 4) = (0, 3.6, 0) \<and>
      distance (pointLights rig ! 4) = 9.6)"
proof (intro conjI impI)
  show "map fst (roomConfigs rb) = ''off'' # roomPresets"
    by (rule roomConfigs_keys)
next
  assume "preset \<in> set roomPresets"
  then consider "preset = ''cozy-night''"
    | "preset \<in> {''warm-evening'', ''bright-day'', ''studio-neutral'', ''sunset''}"
    by (auto simp: roomPresets_def)
  then show "\<exists>rig. getRoomLightingConfig preset (Some rb) = Config rig \<and>
        list_all (specCornerLight rb (if preset = ''cozy-night'' then 0.7 else 1))
          (butlast (pointLights rig)) \<and>
        specCenterLight rb (if preset = ''cozy-night'' then 0.5 else 0)
          (if preset = ''cozy-night'' then 0.6 else 1.2) (last (pointLights rig))"
  proof cases
    case 1
    with three_light_rig [of rb] show ?thesis by auto
  next
    case 2
    then have "preset \<noteq> ''cozy-night''" by auto
    with five_light_rig [OF 2, of rb] show ?thesis by auto
  qed
next
  show "\<exists>rig. getRoomLightingConfig ''warm-evening'' (Some scenarioBounds) = Config rig \<and>
      pl_position (pointLights rig ! 0) = (4, 3.6, 4) \<and>
      pl_position (pointLights rig ! 4) = (0, 3.6, 0) \<and>
      distance (pointLights rig ! 4) = 9.6"
    by (rule scenario_rig)
qed

text \<open>The intimate preset in the scenario's room.\<close>

theorem C5_room_rig_geometry_witness:
  "''cozy-night'' \<in> set roomPresets \<and>
   (\<exists>rig. getRoomLightingConfig ''cozy-night'' (Some scenarioBounds) = Config rig \<and>
      list_all (specCornerLight scenarioBounds 0.7) (butlast (pointLights rig)) \<and>
      specCenterLight scenarioBounds 0.5 0.6 (last (pointLights rig)))"
proof -
  have known: "''cozy-night'' \<in> set roomPresets"
    by (simp add: roomPresets_def)
  from C5_room_rig_geometry [of scenarioBounds "''cozy-night''"] known
  show ?thesis by simp
qed

text \<open>
  Claim C6 (room resolver fallback) fails for an identifier outside the table that
  names a member of \<open>Object.prototype\<close>: \<^verbatim>\<open>configs['constructor']\<close> is the inherited
  \<open>Object\<close> function, which is truthy, so \<^verbatim>\<open>configs[preset] || null\<close> returns it
  instead of \<open>null\<close>.
\<close>

theorem C6_inherited_name_is_not_null:
  "''constructor'' \<notin> set (map fst (roomConfigs scenarioBounds)) \<and>
   getRoomLightingConfig ''constructor'' (Some scenarioBounds) = PrototypeMember ''constructor'' \<and>
   getRoomLightingConfig ''constructor'' (Some scenarioBounds) \<noteq> Null"
  by (simp add: getRoomLightingConfig_def getProperty_def roomConfigs_def Let_def
      objectPrototype_def)

subsection \<open>The furniture resolver\<close>

lemma getFurnitureLightingConfig_default:
  "getFurnitureLightingConfig ''default'' =
     Config \<lparr> furn_ambientLight = \<lparr> amb_color = ''#ffffff'', amb_intensity = 0.1 \<rparr>,
              directionalLight = \<lparr> dir_color = ''#fff1e0'', dir_position = (5, 10, 7),
                dir_intensity = 1.8, dir_castShadow = True,
                shadowMapSize = (2048, 2048) \<rparr> \<rparr>"
  by (simp add: getFurnitureLightingConfig_def getProperty_def furnitureConfigs_def)

lemma getFurnitureLightingConfig_known:
  "preset \<in> set furniturePresets \<Longrightarrow> \<exists>rig. getFurnitureLightingConfig preset = Config rig"
  by (auto simp: furniturePresets_def getFurnitureLightingConfig_def getProperty_def
      furnitureConfigs_def)

text \<open>
  An identifier that is neither in the table nor the name of a member of
  \<open>Object.prototype\<close> resolves to the \<open>default\<close> rig.
\<close>

lemma getFurnitureLightingConfig_unknown:
  assumes "preset \<notin> set furniturePresets" and "preset \<notin> set objectPrototype"
  shows "getFurnitureLightingConfig preset = getFurnitureLightingConfig ''default''"
proof -
  from assms(1) have "preset \<notin> set (map fst furnitureConfigs)"
    unfolding furnitureConfigs_keys .
  then have "getProperty furnitureConfigs preset = Undefined"
    using assms(2) by (rule getProperty_Undefined)
  then show ?thesis
    by (simp add: getFurnitureLightingConfig_def getProperty_def furnitureConfigs_def)
qed

lemma getFurnitureLightingConfig_inherited:
  assumes "preset \<in> set objectPrototype"
  shows "getFurnitureLightingConfig preset = PrototypeMember preset"
proof -
  from assms have "preset \<notin> set (map fst furnitureConfigs)"
    unfolding furnitureConfigs_keys by (rule objectPrototype_not_preset(2))
  then have "getProperty furnitureConfigs preset = Inherited preset"
    using assms by (rule getProperty_Inherited)
  then show ?thesis by (simp add: getFurnitureLightingConfig_def)
qed

text \<open>
  Claim C7 (furniture resolver totality) fails for the same identifiers:
  \<^verbatim>\<open>configs['constructor'] || configs['default']\<close> is the inherited \<open>Object\<close> function,
  neither a rig nor what \<open>default\<close> resolves to.
\<close>

theorem C7_inherited_name_is_not_default:
  "''constructor'' \<notin> set (map fst furnitureConfigs) \<and>
   getFurnitureLightingConfig ''constructor'' = PrototypeMember ''constructor'' \<and>
   getFurnitureLightingConfig ''constructor'' \<noteq> getFurnitureLightingConfig ''default''"
  by (simp add: getFurnitureLightingConfig_def getProperty_def furnitureConfigs_def
      objectPrototype_def)

end
